theory Spec2Isabelle
  imports Main "HOL-Library.AList"
begin

section \<open>The regulatory-document importer (src/importer.js)\<close>

text \<open>
  The importer is one sequential batch job: it selects up to 20 pending rows of the table
  \<^verbatim>\<open>reg_documents\<close>, renders each row's URL in a browser page, hashes the rendered
  text, and either touches the row (no change) or uploads a PDF snapshot, rewrites the row
  and appends a row to \<^verbatim>\<open>reg_document_versions\<close>.

  The store and the browser are external. They are modelled as a \<open>world\<close> (the two
  tables, the storage bucket, the number of clock reads, and the trace of console lines
  and store requests) together with the \<open>answers\<close> the browser and the store give
  during the processing of one document.

  Two kinds of failure exist in the source and are kept apart:
  \<^item> a browser call (\<^verbatim>\<open>page.goto\<close>, \<^verbatim>\<open>page.evaluate\<close>, \<^verbatim>\<open>page.pdf\<close>,
    \<^verbatim>\<open>page.title\<close>) throws;
  \<^item> a store call resolves to a result object whose \<^verbatim>\<open>error\<close> field is set. The
    source reads that field after the select (lines 20-26) and after the upload
    (lines 70-73) and throws it itself; after the three row updates and the insert the
    result object is dropped.
\<close>

subsection \<open>Data\<close>

text \<open>
  A row of \<^verbatim>\<open>reg_documents\<close>, as the client holds it; a nullable column is an option.
  \<^verbatim>\<open>latest_version\<close> is a JavaScript number with an integer value.
\<close>

record doc =
  doc_id :: string
  canonical_url :: string
  status :: string
  latest_version :: "int option"
  content_hash :: "string option"
  full_text :: "string option"
  title :: "string option"
  snapshot_path :: "string option"
  retrieved_at :: "string option"
  last_checked_at :: "string option"
  updated_at :: "string option"

text \<open>A row of \<^verbatim>\<open>reg_document_versions\<close>, as the object literal of lines 91-98.\<close>

record version_row =
  reg_document_id :: string
  version :: int
  v_snapshot_path :: string
  v_full_text :: string
  v_content_hash :: string
  v_retrieved_at :: string

text \<open>
  The object passed to \<^verbatim>\<open>update\<close>: a key that is absent (\<open>None\<close>) leaves the column
  as it is.
\<close>

record patch =
  p_title :: "string option"
  p_status :: "string option"
  p_latest_version :: "int option"
  p_snapshot_path :: "string option"
  p_full_text :: "string option"
  p_content_hash :: "string option"
  p_retrieved_at :: "string option"
  p_last_checked_at :: "string option"
  p_updated_at :: "string option"

datatype event =
    LogNoPending
  | LogProcessing string
  | LogNoChange
  | LogSaved int
  | LogFailed string string
  | ReqUpload string string "string option"
  | ReqUpdate string patch "string option"
  | ReqInsert version_row "string option"

record world =
  reg_documents :: "doc list"
  reg_document_versions :: "version_row list"
  regulations :: "(string \<times> string) list"
  ticks :: nat
  trace :: "event list"

text \<open>
  What the browser and the store answer while one document is processed. \<open>Inl\<close> and
  \<open>Some\<close> carry the message of the error; for the browser calls the error is thrown,
  for the store calls it is the \<^verbatim>\<open>error\<close> field of the result.
\<close>

record answers =
  goto_err :: "string option"
  inner_text :: "string + string option"
  pdf :: "string + string"
  upload_err :: "string option"
  page_title :: "string + string"
  touch_err :: "string option"
  update_err :: "string option"
  insert_err :: "string option"
  mark_error_err :: "string option"

record run_env =
  select_err :: "string option"
  launch_err :: "string option"
  new_page_err :: "string option"
  close_err :: "string option"
  per_doc :: "nat \<Rightarrow> answers"

subsection \<open>JavaScript values\<close>

text \<open>Truthiness of a nullable string: \<^verbatim>\<open>null\<close> and the empty string are falsy.\<close>

definition truthy :: "string option \<Rightarrow> bool" where
  "truthy s = (case s of None \<Rightarrow> False | Some x \<Rightarrow> x \<noteq> [])"

text \<open>\<^verbatim>\<open>doc.latest_version || 1\<close>: \<^verbatim>\<open>null\<close> and 0 are falsy.\<close>

definition or_one :: "int option \<Rightarrow> int" where
  "or_one v = (case v of None \<Rightarrow> 1 | Some n \<Rightarrow> if n = 0 then 1 else n)"

text \<open>
  \<^verbatim>\<open>n + 1\<close> on a number with an integer value (line 63). Numbers are IEEE doubles:
  every integer up to \<open>2 ^ 53\<close> in magnitude is a number, then only the even ones up to
  \<open>2 ^ 54\<close>, then only multiples of 4, and so on. From \<open>- (2 ^ 53)\<close> to
  \<open>2 ^ 53 - 1\<close> the sum is exact. Up to \<open>2 ^ 54\<close> in magnitude the exact sum lies
  halfway between the numbers \<open>n\<close> and \<open>n + 2\<close> and is rounded to the one whose
  significand is even. Further out it is rounded back to \<open>n\<close>.
\<close>

definition js_plus_one :: "int \<Rightarrow> int" where
  "js_plus_one n =
     (if - (2 ^ 53) \<le> n \<and> n < 2 ^ 53 then n + 1
      else if abs n \<le> 2 ^ 54 \<and> odd (abs n div 2) then n + 2
      else n)"

text \<open>
  The decimal digits of an integer. The text a template literal gives for a number is a
  parameter of the model (\<open>to_string\<close> below); for an integer below \<open>2 ^ 53\<close> in
  magnitude it is these digits, and the examples run with them.
\<close>

definition digit :: "nat \<Rightarrow> char" where
  "digit n = ''0123456789'' ! n"

fun show_nat :: "nat \<Rightarrow> string" where
  "show_nat n = (if n < 10 then [digit n] else show_nat (n div 10) @ [digit (n mod 10)])"

declare show_nat.simps [simp del]

definition show_int :: "int \<Rightarrow> string" where
  "show_int i = (if i < 0 then CHR ''-'' # show_nat (nat (- i)) else show_nat (nat i))"

text \<open>\<^verbatim>\<open>document.body?.innerText || ""\<close> (line 42).\<close>

definition body_text :: "string option \<Rightarrow> string" where
  "body_text b = (case b of None \<Rightarrow> [] | Some t \<Rightarrow> t)"

subsection \<open>The store\<close>

definition log :: "event \<Rightarrow> world \<Rightarrow> world" where
  "log e w = w\<lparr>trace := trace w @ [e]\<rparr>"

text \<open>\<^verbatim>\<open>new Date().toISOString()\<close>: the next reading of the clock.\<close>

definition now :: "(nat \<Rightarrow> string) \<Rightarrow> world \<Rightarrow> string \<times> world" where
  "now clock w = (clock (ticks w), w\<lparr>ticks := Suc (ticks w)\<rparr>)"

definition keep :: "'a option \<Rightarrow> 'a option \<Rightarrow> 'a option" where
  "keep new old = (case new of None \<Rightarrow> old | Some v \<Rightarrow> Some v)"

definition apply_patch :: "patch \<Rightarrow> doc \<Rightarrow> doc" where
  "apply_patch p r = r\<lparr>
     title := keep (p_title p) (title r),
     status := (case p_status p of None \<Rightarrow> status r | Some s \<Rightarrow> s),
     latest_version := keep (p_latest_version p) (latest_version r),
     snapshot_path := keep (p_snapshot_path p) (snapshot_path r),
     full_text := keep (p_full_text p) (full_text r),
     content_hash := keep (p_content_hash p) (content_hash r),
     retrieved_at := keep (p_retrieved_at p) (retrieved_at r),
     last_checked_at := keep (p_last_checked_at p) (last_checked_at r),
     updated_at := keep (p_updated_at p) (updated_at r)\<rparr>"

definition empty_patch :: patch where
  "empty_patch = \<lparr>p_title = None, p_status = None, p_latest_version = None,
     p_snapshot_path = None, p_full_text = None, p_content_hash = None,
     p_retrieved_at = None, p_last_checked_at = None, p_updated_at = None\<rparr>"

text \<open>
  \<^verbatim>\<open>sb.from("reg_documents").update(p).eq("id", i)\<close>: every row whose id is \<open>i\<close> is
  patched, unless the store rejects the request; then no row changes.
\<close>

definition store_update :: "string \<Rightarrow> patch \<Rightarrow> string option \<Rightarrow> world \<Rightarrow> world" where
  "store_update i p err w =
     log (ReqUpdate i p err)
       (case err of
          Some e \<Rightarrow> w
        | None \<Rightarrow> w\<lparr>reg_documents :=
                     map (\<lambda>r. if doc_id r = i then apply_patch p r else r) (reg_documents w)\<rparr>)"

text \<open>\<^verbatim>\<open>sb.from("reg_document_versions").insert(row)\<close>.\<close>

definition store_insert :: "version_row \<Rightarrow> string option \<Rightarrow> world \<Rightarrow> world" where
  "store_insert row err w =
     log (ReqInsert row err)
       (case err of
          Some e \<Rightarrow> w
        | None \<Rightarrow> w\<lparr>reg_document_versions := reg_document_versions w @ [row]\<rparr>)"

text \<open>\<^verbatim>\<open>sb.storage.from("regulations").upload(path, buf, {upsert: true})\<close>.\<close>

definition storage_upload :: "string \<Rightarrow> string \<Rightarrow> string option \<Rightarrow> world \<Rightarrow> world" where
  "storage_upload path buf err w =
     log (ReqUpload path buf err)
       (case err of
          Some e \<Rightarrow> w
        | None \<Rightarrow> w\<lparr>regulations := AList.update path buf (regulations w)\<rparr>)"

subsection \<open>Change detection and version numbering\<close>

text \<open>Lines 47-49.\<close>

definition changed :: "doc \<Rightarrow> string \<Rightarrow> bool" where
  "changed d hash =
     (let c = (if truthy (content_hash d) then content_hash d \<noteq> Some hash else True)
      in if \<not> truthy (content_hash d) then True else c)"

text \<open>Lines 46 and 63.\<close>

definition next_version :: "doc \<Rightarrow> int" where
  "next_version d =
     (let nextVersion = or_one (latest_version d)
      in if truthy (content_hash d) then js_plus_one (or_one (latest_version d))
         else nextVersion)"

text \<open>Line 69; \<open>to_string\<close> is the text of a number inside a template literal.\<close>

definition snapshot_key :: "(int \<Rightarrow> string) \<Rightarrow> doc \<Rightarrow> int \<Rightarrow> string" where
  "snapshot_key to_string d v = doc_id d @ ''/v'' @ to_string v @ ''/snapshot.pdf''"

subsection \<open>Processing one document\<close>

text \<open>Lines 53-59: the branch taken when nothing changed.\<close>

definition mark_checked :: "(nat \<Rightarrow> string) \<Rightarrow> answers \<Rightarrow> doc \<Rightarrow> world \<Rightarrow> world" where
  "mark_checked clock a d w =
     (let (t, w1) = now clock w;
          w2 = store_update (doc_id d)
                 (empty_patch\<lparr>p_status := Some ''active'', p_last_checked_at := Some t\<rparr>)
                 (touch_err a) w1
      in log LogNoChange w2)"

text \<open>Lines 76-100: the two writes after a successful upload.\<close>

definition save_version ::
  "(nat \<Rightarrow> string) \<Rightarrow> answers \<Rightarrow> doc \<Rightarrow> string \<Rightarrow> string \<Rightarrow> int \<Rightarrow> string \<Rightarrow> string \<Rightarrow> world \<Rightarrow> world"
where
  "save_version clock a d text hash nextVersion path ttl w =
     (let (t1, w1) = now clock w;
          (t2, w2) = now clock w1;
          (t3, w3) = now clock w2;
          w4 = store_update (doc_id d)
                 \<lparr>p_title = Some ttl, p_status = Some ''active'',
                  p_latest_version = Some nextVersion, p_snapshot_path = Some path,
                  p_full_text = Some text, p_content_hash = Some hash,
                  p_retrieved_at = Some t1, p_last_checked_at = Some t2,
                  p_updated_at = Some t3\<rparr>
                 (update_err a) w3;
          (t4, w5) = now clock w4;
          w6 = store_insert
                 \<lparr>reg_document_id = doc_id d, version = nextVersion, v_snapshot_path = path,
                  v_full_text = text, v_content_hash = hash, v_retrieved_at = t4\<rparr>
                 (insert_err a) w5
      in log (LogSaved nextVersion) w6)"

text \<open>
  Lines 39-100, the body of the \<^verbatim>\<open>try\<close>: the result is the message of the error that
  was thrown, if one was, and the world as the body left it.
\<close>

definition try_body ::
  "(string \<Rightarrow> string) \<Rightarrow> (int \<Rightarrow> string) \<Rightarrow> (nat \<Rightarrow> string) \<Rightarrow>
     answers \<Rightarrow> doc \<Rightarrow> world \<Rightarrow> string option \<times> world"
where
  "try_body sha256 to_string clock a d w =
     (case goto_err a of
        Some e \<Rightarrow> (Some e, w)
      | None \<Rightarrow>
     (case inner_text a of
        Inl e \<Rightarrow> (Some e, w)
      | Inr b \<Rightarrow>
     (let text = body_text b;
          hash = sha256 text
      in if truthy (content_hash d) \<and> \<not> changed d hash
         then (None, mark_checked clock a d w)
         else
     (let nextVersion = next_version d in
      case pdf a of
        Inl e \<Rightarrow> (Some e, w)
      | Inr pdfBuffer \<Rightarrow>
     (let path = snapshot_key to_string d nextVersion;
          w1 = storage_upload path pdfBuffer (upload_err a) w
      in case upload_err a of
           Some upErr \<Rightarrow> (Some upErr, w1)
         | None \<Rightarrow>
     (case page_title a of
        Inl e \<Rightarrow> (Some e, w1)
      | Inr ttl \<Rightarrow> (None, save_version clock a d text hash nextVersion path ttl w1)))))))"

text \<open>Lines 101-109, the \<^verbatim>\<open>catch\<close>.\<close>

definition on_failure :: "(nat \<Rightarrow> string) \<Rightarrow> answers \<Rightarrow> doc \<Rightarrow> string \<Rightarrow> world \<Rightarrow> world" where
  "on_failure clock a d msg w =
     (let w0 = log (LogFailed (canonical_url d) msg) w;
          (t1, w1) = now clock w0;
          (t2, w2) = now clock w1
      in store_update (doc_id d)
           (empty_patch\<lparr>p_status := Some ''error'', p_last_checked_at := Some t1,
                         p_updated_at := Some t2\<rparr>)
           (mark_error_err a) w2)"

text \<open>Lines 36-109: one iteration of the loop.\<close>

definition process_doc ::
  "(string \<Rightarrow> string) \<Rightarrow> (int \<Rightarrow> string) \<Rightarrow> (nat \<Rightarrow> string) \<Rightarrow>
     answers \<Rightarrow> doc \<Rightarrow> world \<Rightarrow> world"
where
  "process_doc sha256 to_string clock a d w =
     (case try_body sha256 to_string clock a d (log (LogProcessing (canonical_url d)) w) of
        (None, w1) \<Rightarrow> w1
      | (Some msg, w1) \<Rightarrow> on_failure clock a d msg w1)"

subsection \<open>The batch\<close>

text \<open>Lines 35-110; the i-th document of the batch gets the i-th answers.\<close>

fun for_docs ::
  "(string \<Rightarrow> string) \<Rightarrow> (int \<Rightarrow> string) \<Rightarrow> (nat \<Rightarrow> string) \<Rightarrow>
     (nat \<Rightarrow> answers) \<Rightarrow> nat \<Rightarrow> doc list \<Rightarrow> world \<Rightarrow> world"
where
  "for_docs sha256 to_string clock env i [] w = w"
| "for_docs sha256 to_string clock env i (d # ds) w =
     for_docs sha256 to_string clock env (Suc i) ds (process_doc sha256 to_string clock (env i) d w)"

text \<open>
  Lines 20-24: the pending rows, at most 20 of them, in the order of the table.
\<close>

definition select_pending :: "world \<Rightarrow> doc list" where
  "select_pending w = take 20 (filter (\<lambda>r. status r = ''pending'') (reg_documents w))"

text \<open>
  Lines 18-113. The first component is the error \<^verbatim>\<open>main\<close> rejects with, if any.
\<close>

definition main ::
  "(string \<Rightarrow> string) \<Rightarrow> (int \<Rightarrow> string) \<Rightarrow> (nat \<Rightarrow> string) \<Rightarrow>
     run_env \<Rightarrow> world \<Rightarrow> string option \<times> world"
where
  "main sha256 to_string clock env w =
     (case select_err env of
        Some e \<Rightarrow> (Some e, w)
      | None \<Rightarrow>
     (let docs = select_pending w
      in if docs = [] then (None, log LogNoPending w)
         else
     (case launch_err env of
        Some e \<Rightarrow> (Some e, w)
      | None \<Rightarrow>
     (case new_page_err env of
        Some e \<Rightarrow> (Some e, w)
      | None \<Rightarrow> (close_err env, for_docs sha256 to_string clock (per_doc env) 0 docs w)))))"

text \<open>The URLs of the documents whose processing was started, read off the trace.\<close>

fun attempted :: "event list \<Rightarrow> string list" where
  "attempted [] = []"
| "attempted (LogProcessing u # es) = u # attempted es"
| "attempted (e # es) = attempted es"

subsection \<open>Sample data\<close>

text \<open>
  The digest is a parameter of the model (the source takes SHA-256 from the \<^verbatim>\<open>crypto\<close>
  module); the examples run with a stand-in that is injective, with a clock that stands
  still, and with \<open>show_int\<close> for the text of a number.
\<close>

definition demo_digest :: "string \<Rightarrow> string" where
  "demo_digest t = ''sha:'' @ t"

definition demo_clock :: "nat \<Rightarrow> string" where
  "demo_clock n = ''2024-05-01T00:00:00.000Z''"

text \<open>A document that was never fetched.\<close>

definition fresh_doc :: doc where
  "fresh_doc = \<lparr>doc_id = ''d1'', canonical_url = ''https://example.org/a'',
     status = ''pending'', latest_version = None, content_hash = None, full_text = None,
     title = None, snapshot_path = None, retrieved_at = None, last_checked_at = None,
     updated_at = None\<rparr>"

text \<open>A document captured three times before, queued again.\<close>

definition seen_doc :: doc where
  "seen_doc = \<lparr>doc_id = ''d2'', canonical_url = ''https://example.org/b'',
     status = ''pending'', latest_version = Some 3, content_hash = Some ''sha:old'',
     full_text = Some ''old'', title = Some ''B'', snapshot_path = Some ''d2/v3/snapshot.pdf'',
     retrieved_at = Some ''2024-04-01T00:00:00.000Z'',
     last_checked_at = Some ''2024-04-02T00:00:00.000Z'',
     updated_at = Some ''2024-04-01T00:00:00.000Z''\<rparr>"

text \<open>A document whose hash was cleared by hand while its version number stayed.\<close>

definition reset_doc :: doc where
  "reset_doc = \<lparr>doc_id = ''d3'', canonical_url = ''https://example.org/c'',
     status = ''pending'', latest_version = Some 5, content_hash = None, full_text = None,
     title = None, snapshot_path = None, retrieved_at = None, last_checked_at = None,
     updated_at = None\<rparr>"

text \<open>
  Captured documents whose version number is null, 0, or \<open>2 ^ 53\<close>, each in a table of
  its own.
\<close>

definition unversioned_doc :: doc where
  "unversioned_doc = seen_doc\<lparr>latest_version := None\<rparr>"

definition zero_doc :: doc where
  "zero_doc = seen_doc\<lparr>latest_version := Some 0\<rparr>"

definition huge_doc :: doc where
  "huge_doc = seen_doc\<lparr>latest_version := Some 9007199254740992\<rparr>"

definition world_of :: "doc \<Rightarrow> world" where
  "world_of d = \<lparr>reg_documents = [d], reg_document_versions = [], regulations = [],
     ticks = 0, trace = []\<rparr>"

definition demo_world :: world where
  "demo_world = \<lparr>reg_documents = [fresh_doc, seen_doc, reset_doc],
     reg_document_versions = [], regulations = [], ticks = 0, trace = []\<rparr>"

text \<open>The page shows the given text and every call succeeds.\<close>

definition page_ok :: "string \<Rightarrow> answers" where
  "page_ok t = \<lparr>goto_err = None, inner_text = Inr (Some t), pdf = Inr ''%PDF'',
     upload_err = None, page_title = Inr ''Title'', touch_err = None, update_err = None,
     insert_err = None, mark_error_err = None\<rparr>"

text \<open>Twenty-five pending documents.\<close>

definition crowded_world :: world where
  "crowded_world = \<lparr>reg_documents = replicate 25 fresh_doc,
     reg_document_versions = [], regulations = [], ticks = 0, trace = []\<rparr>"

definition calm_env :: run_env where
  "calm_env = \<lparr>select_err = None, launch_err = None, new_page_err = None,
     close_err = None, per_doc = (\<lambda>i. page_ok ''text'')\<rparr>"

text \<open>Navigation times out, and the store rejects the request that follows.\<close>

definition timed_out :: answers where
  "timed_out = (page_ok ''new'')\<lparr>goto_err := Some ''Timeout 60000ms exceeded'',
     mark_error_err := Some ''store unavailable''\<rparr>"

text \<open>The store rejects the rewrite of the row, or the insert of the version row.\<close>

definition update_rejected :: answers where
  "update_rejected = (page_ok ''new'')\<lparr>update_err := Some ''rejected''\<rparr>"

definition insert_rejected :: answers where
  "insert_rejected = (page_ok ''new'')\<lparr>insert_err := Some ''rejected''\<rparr>"

text \<open>Navigation fails for the first document of a batch only.\<close>

definition nav_failed :: answers where
  "nav_failed = (page_ok ''new'')\<lparr>goto_err := Some ''Timeout 60000ms exceeded''\<rparr>"

definition first_fails :: "nat \<Rightarrow> answers" where
  "first_fails i = (if i = 0 then nav_failed else page_ok ''new'')"

section \<open>Effects of the store operations and of the paths through one iteration\<close>

lemma log_fields [simp]:
  "reg_documents (log e w) = reg_documents w"
  "reg_document_versions (log e w) = reg_document_versions w"
  "regulations (log e w) = regulations w"
  "ticks (log e w) = ticks w"
  "trace (log e w) = trace w @ [e]"
  by (simp_all add: log_def)

lemma store_update_fields [simp]:
  "reg_documents (store_update i p err w) =
     (if err = None then map (\<lambda>r. if doc_id r = i then apply_patch p r else r) (reg_documents w)
      else reg_documents w)"
  "reg_document_versions (store_update i p err w) = reg_document_versions w"
  "regulations (store_update i p err w) = regulations w"
  "ticks (store_update i p err w) = ticks w"
  "trace (store_update i p err w) = trace w @ [ReqUpdate i p err]"
  by (simp_all add: store_update_def split: option.splits)

lemma store_insert_fields [simp]:
  "reg_documents (store_insert row err w) = reg_documents w"
  "reg_document_versions (store_insert row err w) =
     (if err = None then reg_document_versions w @ [row] else reg_document_versions w)"
  "regulations (store_insert row err w) = regulations w"
  "ticks (store_insert row err w) = ticks w"
  "trace (store_insert row err w) = trace w @ [ReqInsert row err]"
  by (simp_all add: store_insert_def split: option.splits)

lemma storage_upload_fields [simp]:
  "reg_documents (storage_upload path buf err w) = reg_documents w"
  "reg_document_versions (storage_upload path buf err w) = reg_document_versions w"
  "regulations (storage_upload path buf err w) =
     (if err = None then AList.update path buf (regulations w) else regulations w)"
  "ticks (storage_upload path buf err w) = ticks w"
  "trace (storage_upload path buf err w) = trace w @ [ReqUpload path buf err]"
  by (simp_all add: storage_upload_def split: option.splits)

text \<open>The paths through one iteration.\<close>

lemma process_doc_unchanged:
  assumes "goto_err a = None" and "inner_text a = Inr b"
    and "content_hash d = Some h" and "h \<noteq> []" and "sha256 (body_text b) = h"
  shows "process_doc sha256 to_string clock a d w =
           mark_checked clock a d (log (LogProcessing (canonical_url d)) w)"
  using assms by (simp add: process_doc_def try_body_def changed_def truthy_def)

lemma process_doc_saved:
  assumes "goto_err a = None" and "inner_text a = Inr b"
    and "changed d (sha256 (body_text b))"
    and "pdf a = Inr buf" and "upload_err a = None" and "page_title a = Inr ttl"
  shows "process_doc sha256 to_string clock a d w =
           save_version clock a d (body_text b) (sha256 (body_text b)) (next_version d)
             (snapshot_key to_string d (next_version d)) ttl
             (storage_upload (snapshot_key to_string d (next_version d)) buf None
               (log (LogProcessing (canonical_url d)) w))"
  using assms by (simp add: process_doc_def try_body_def Let_def)

lemma process_doc_upload_failed:
  assumes "goto_err a = None" and "inner_text a = Inr b"
    and "changed d (sha256 (body_text b))"
    and "pdf a = Inr buf" and "upload_err a = Some e"
  shows "process_doc sha256 to_string clock a d w =
           on_failure clock a d e
             (storage_upload (snapshot_key to_string d (next_version d)) buf (Some e)
               (log (LogProcessing (canonical_url d)) w))"
  using assms by (simp add: process_doc_def try_body_def Let_def)

lemma mark_checked_fields:
  "reg_documents (mark_checked clock a d w) =
     (if touch_err a = None
      then map (\<lambda>r. if doc_id r = doc_id d
                     then r\<lparr>status := ''active'', last_checked_at := Some (clock (ticks w))\<rparr>
                     else r) (reg_documents w)
      else reg_documents w)"
  "reg_document_versions (mark_checked clock a d w) = reg_document_versions w"
  "regulations (mark_checked clock a d w) = regulations w"
  "trace (mark_checked clock a d w) =
     trace w @ [ReqUpdate (doc_id d)
                  (empty_patch\<lparr>p_status := Some ''active'',
                                p_last_checked_at := Some (clock (ticks w))\<rparr>) (touch_err a),
                LogNoChange]"
  by (simp_all add: mark_checked_def now_def apply_patch_def keep_def empty_patch_def)

lemma on_failure_fields:
  "reg_documents (on_failure clock a d msg w) =
     (if mark_error_err a = None
      then map (\<lambda>r. if doc_id r = doc_id d
                     then r\<lparr>status := ''error'', last_checked_at := Some (clock (ticks w)),
                            updated_at := Some (clock (Suc (ticks w)))\<rparr>
                     else r) (reg_documents w)
      else reg_documents w)"
  "reg_document_versions (on_failure clock a d msg w) = reg_document_versions w"
  "regulations (on_failure clock a d msg w) = regulations w"
  "trace (on_failure clock a d msg w) =
     trace w @ [LogFailed (canonical_url d) msg,
                ReqUpdate (doc_id d)
                  (empty_patch\<lparr>p_status := Some ''error'',
                                p_last_checked_at := Some (clock (ticks w)),
                                p_updated_at := Some (clock (Suc (ticks w)))\<rparr>)
                  (mark_error_err a)]"
  by (simp_all add: on_failure_def now_def apply_patch_def keep_def empty_patch_def)

lemma save_version_fields:
  "reg_documents (save_version clock a d text hash nv path ttl w) =
     (if update_err a = None
      then map (\<lambda>r. if doc_id r = doc_id d
                     then r\<lparr>title := Some ttl, status := ''active'', latest_version := Some nv,
                            snapshot_path := Some path, full_text := Some text,
                            content_hash := Some hash,
                            retrieved_at := Some (clock (ticks w)),
                            last_checked_at := Some (clock (Suc (ticks w))),
                            updated_at := Some (clock (Suc (Suc (ticks w))))\<rparr>
                     else r) (reg_documents w)
      else reg_documents w)"
  "reg_document_versions (save_version clock a d text hash nv path ttl w) =
     (if insert_err a = None
      then reg_document_versions w @
             [\<lparr>reg_document_id = doc_id d, version = nv, v_snapshot_path = path,
               v_full_text = text, v_content_hash = hash,
               v_retrieved_at = clock (Suc (Suc (Suc (ticks w))))\<rparr>]
      else reg_document_versions w)"
  "regulations (save_version clock a d text hash nv path ttl w) = regulations w"
  by (simp_all add: save_version_def now_def apply_patch_def keep_def)

lemma save_version_trace:
  "trace (save_version clock a d text hash nv path ttl w) =
     trace w @
       [ReqUpdate (doc_id d)
          \<lparr>p_title = Some ttl, p_status = Some ''active'', p_latest_version = Some nv,
           p_snapshot_path = Some path, p_full_text = Some text, p_content_hash = Some hash,
           p_retrieved_at = Some (clock (ticks w)),
           p_last_checked_at = Some (clock (Suc (ticks w))),
           p_updated_at = Some (clock (Suc (Suc (ticks w))))\<rparr> (update_err a),
        ReqInsert
          \<lparr>reg_document_id = doc_id d, version = nv, v_snapshot_path = path,
           v_full_text = text, v_content_hash = hash,
           v_retrieved_at = clock (Suc (Suc (Suc (ticks w))))\<rparr> (insert_err a),
        LogSaved nv]"
  by (simp add: save_version_def now_def)

lemma attempted_append [simp]: "attempted (xs @ ys) = attempted xs @ attempted ys"
  by (induction xs rule: attempted.induct) simp_all

lemma attempted_try_body:
  "attempted (trace (snd (try_body sha256 to_string clock a d w))) = attempted (trace w)"
  by (simp add: try_body_def Let_def mark_checked_fields save_version_trace
      split: option.splits sum.splits)

lemma attempted_on_failure:
  "attempted (trace (on_failure clock a d msg w)) = attempted (trace w)"
  by (simp add: on_failure_fields)

lemma attempted_process_doc:
  "attempted (trace (process_doc sha256 to_string clock a d w)) = attempted (trace w) @ [canonical_url d]"
proof (cases "try_body sha256 to_string clock a d (log (LogProcessing (canonical_url d)) w)")
  case (Pair r w1)
  have "attempted (trace w1) = attempted (trace w) @ [canonical_url d]"
    using attempted_try_body
      [of sha256 to_string clock a d "log (LogProcessing (canonical_url d)) w"]
    by (simp add: Pair)
  then show ?thesis
    by (cases r) (simp_all add: process_doc_def Pair attempted_on_failure)
qed

lemma attempted_for_docs:
  "attempted (trace (for_docs sha256 to_string clock env i ds w)) =
     attempted (trace w) @ map canonical_url ds"
  by (induction ds arbitrary: i w) (simp_all add: attempted_process_doc)

lemma try_body_thrown:
  assumes "fst (try_body sha256 to_string clock a d w) = Some msg"
  shows "reg_documents (snd (try_body sha256 to_string clock a d w)) = reg_documents w"
    and "reg_document_versions (snd (try_body sha256 to_string clock a d w)) = reg_document_versions w"
    and "ticks (snd (try_body sha256 to_string clock a d w)) = ticks w"
  using assms
  by (auto simp add: try_body_def Let_def split: option.splits sum.splits if_splits)

lemma length_select_pending: "length (select_pending w) \<le> 20"
  by (simp add: select_pending_def)

lemma next_version_positive:
  assumes "latest_version d = None \<or> (\<exists>v. latest_version d = Some v \<and> 0 \<le> v)"
  shows "1 \<le> next_version d"
  using assms
  by (auto simp add: next_version_def or_one_def js_plus_one_def Let_def split: if_splits)

lemmas demo_defs = demo_digest_def demo_clock_def fresh_doc_def seen_doc_def reset_doc_def
  demo_world_def page_ok_def

lemmas run_defs = process_doc_def try_body_def changed_def truthy_def next_version_def
  or_one_def js_plus_one_def body_text_def Let_def

text \<open>The sum at and around the edge of the exact range.\<close>

lemma js_plus_one_examples:
  "js_plus_one 3 = 4 \<and> js_plus_one (- 1) = 0
   \<and> js_plus_one 9007199254740991 = 9007199254740992
   \<and> js_plus_one 9007199254740992 = 9007199254740992
   \<and> js_plus_one 9007199254740994 = 9007199254740996
   \<and> js_plus_one (- 9007199254740992) = - 9007199254740991
   \<and> js_plus_one (- 9007199254740994) = - 9007199254740992
   \<and> js_plus_one 18014398509481984 = 18014398509481984"
  by (simp add: js_plus_one_def)

section \<open>Change detection\<close>

text \<open>
  C2. A document with no stored \<^verbatim>\<open>content_hash\<close> is reported as changed, whatever
  text was fetched.
\<close>

theorem C2_no_hash_is_changed:
  "content_hash d = None \<Longrightarrow> changed d (sha256 text)"
  by (simp add: changed_def truthy_def)

theorem C2_witness:
  "content_hash fresh_doc = None \<and> changed fresh_doc (demo_digest ''anything'')"
  using C2_no_hash_is_changed [of fresh_doc demo_digest "''anything''"]
  by (simp add: fresh_doc_def)

section \<open>Version numbering\<close>

text \<open>
  C1, as the source has it. A document whose stored \<^verbatim>\<open>content_hash\<close> is present and
  differs from the hash of the fetched text: when the page is rendered, the snapshot
  uploaded and both writes accepted, every row of the document carries the
  \<^verbatim>\<open>latest_version\<close> \<^verbatim>\<open>(doc.latest_version || 1) + 1\<close> afterwards, and exactly one
  version row was appended, with that version. The base of the sum is the stored version,
  or 1 when that is null or 0; the sum is the sum of JavaScript numbers, which is the
  integer sum for a base from \<open>- (2 ^ 53)\<close> to \<open>2 ^ 53 - 1\<close>. So for a stored version
  \<open>v\<close> in that range other than 0 the new version is \<open>v + 1\<close>.
\<close>

theorem C1_changed_writes_base_plus_one:
  assumes "goto_err a = None" and "inner_text a = Inr b"
    and "content_hash d = Some h" and "h \<noteq> []" and "h \<noteq> sha256 (body_text b)"
    and "pdf a = Inr buf" and "upload_err a = None" and "page_title a = Inr ttl"
    and "update_err a = None" and "insert_err a = None"
    and "base = (case latest_version d of None \<Rightarrow> 1 | Some n \<Rightarrow> if n = 0 then 1 else n)"
  shows "map latest_version (reg_documents (process_doc sha256 to_string clock a d w)) =
           map (\<lambda>r. if doc_id r = doc_id d then Some (js_plus_one base) else latest_version r)
             (reg_documents w)
       \<and> (\<exists>row. reg_document_versions (process_doc sha256 to_string clock a d w) =
                   reg_document_versions w @ [row]
              \<and> reg_document_id row = doc_id d \<and> version row = js_plus_one base)
       \<and> (- (2 ^ 53) \<le> base \<and> base < 2 ^ 53 \<longrightarrow> js_plus_one base = base + 1)
       \<and> (\<forall>v. latest_version d = Some v \<and> v \<noteq> 0 \<and> - (2 ^ 53) \<le> v \<and> v < 2 ^ 53
              \<longrightarrow> js_plus_one base = v + 1)"
proof -
  from assms(3,4,5) have ch: "changed d (sha256 (body_text b))"
    by (simp add: changed_def truthy_def)
  from assms(3,4,11) have nv: "next_version d = js_plus_one base"
    by (simp add: next_version_def truthy_def or_one_def)
  have run: "process_doc sha256 to_string clock a d w =
      save_version clock a d (body_text b) (sha256 (body_text b)) (next_version d)
        (snapshot_key to_string d (next_version d)) ttl
        (storage_upload (snapshot_key to_string d (next_version d)) buf None
          (log (LogProcessing (canonical_url d)) w))"
    using assms(1,2) ch assms(6,7,8) by (rule process_doc_saved)
  have rows: "map latest_version (reg_documents (process_doc sha256 to_string clock a d w)) =
          map (\<lambda>r. if doc_id r = doc_id d then Some (js_plus_one base) else latest_version r)
            (reg_documents w)"
    using assms(9) by (simp add: run save_version_fields nv)
  have vers: "\<exists>row. reg_document_versions (process_doc sha256 to_string clock a d w) =
                   reg_document_versions w @ [row]
              \<and> reg_document_id row = doc_id d \<and> version row = js_plus_one base"
    using assms(10) by (simp add: run save_version_fields nv)
  have exact: "- (2 ^ 53) \<le> base \<and> base < 2 ^ 53 \<longrightarrow> js_plus_one base = base + 1"
    by (simp add: js_plus_one_def)
  have old: "\<forall>v. latest_version d = Some v \<and> v \<noteq> 0 \<and> - (2 ^ 53) \<le> v \<and> v < 2 ^ 53
              \<longrightarrow> js_plus_one base = v + 1"
    using assms(11) by (simp add: js_plus_one_def)
  from rows vers exact old show ?thesis by blast
qed

theorem C1_witness:
  "content_hash seen_doc = Some ''sha:old'' \<and> ''sha:old'' \<noteq> demo_digest ''new''
   \<and> latest_version seen_doc = Some 3
   \<and> map latest_version
        (reg_documents
          (process_doc demo_digest show_int demo_clock (page_ok ''new'') seen_doc demo_world))
      = [None, Some 4, Some 5]
   \<and> map version
        (reg_document_versions
          (process_doc demo_digest show_int demo_clock (page_ok ''new'') seen_doc demo_world))
      = [4]"
proof -
  have all: "map latest_version
        (reg_documents
          (process_doc demo_digest show_int demo_clock (page_ok ''new'') seen_doc demo_world))
      = map (\<lambda>r. if doc_id r = doc_id seen_doc then Some (js_plus_one 3) else latest_version r)
          (reg_documents demo_world)
     \<and> (\<exists>row. reg_document_versions
          (process_doc demo_digest show_int demo_clock (page_ok ''new'') seen_doc demo_world)
           = reg_document_versions demo_world @ [row]
          \<and> reg_document_id row = doc_id seen_doc \<and> version row = js_plus_one 3)
     \<and> (- (2 ^ 53) \<le> (3::int) \<and> (3::int) < 2 ^ 53 \<longrightarrow> js_plus_one 3 = 3 + 1)
     \<and> (\<forall>v. latest_version seen_doc = Some v \<and> v \<noteq> 0 \<and> - (2 ^ 53) \<le> v \<and> v < 2 ^ 53
              \<longrightarrow> js_plus_one 3 = v + 1)"
    by (rule C1_changed_writes_base_plus_one [where b = "Some ''new''" and h = "''sha:old''"
          and buf = "''%PDF''" and ttl = "''Title''"])
       (simp_all add: demo_defs body_text_def)
  have inc: "js_plus_one 3 = 4"
    by (simp add: js_plus_one_def)
  from all have rows: "map latest_version
        (reg_documents
          (process_doc demo_digest show_int demo_clock (page_ok ''new'') seen_doc demo_world))
      = [None, Some 4, Some 5]"
    by (simp add: inc demo_world_def fresh_doc_def seen_doc_def reset_doc_def)
  from all have vers: "map version
        (reg_document_versions
          (process_doc demo_digest show_int demo_clock (page_ok ''new'') seen_doc demo_world))
      = [4]"
    by (auto simp add: inc demo_world_def)
  have pre: "content_hash seen_doc = Some ''sha:old'' \<and> ''sha:old'' \<noteq> demo_digest ''new''
     \<and> latest_version seen_doc = Some 3"
    by (simp add: demo_defs)
  from pre rows vers show ?thesis by blast
qed

text \<open>
  C1 as it is worded (the old stored value plus 1) fails where line 63's \<^verbatim>\<open>|| 1\<close>
  applies and where the sum of two numbers is not the sum of two integers: a captured
  document whose version is null gets version 2, one whose version is 0 gets 2 and not 1,
  and one whose version is \<open>2 ^ 53\<close> keeps \<open>2 ^ 53\<close>.
\<close>

theorem C1_counterexample:
  "content_hash unversioned_doc = Some ''sha:old'' \<and> latest_version unversioned_doc = None
   \<and> map latest_version
        (reg_documents (process_doc demo_digest show_int demo_clock (page_ok ''new'')
                         unversioned_doc (world_of unversioned_doc))) = [Some 2]
   \<and> content_hash zero_doc = Some ''sha:old'' \<and> latest_version zero_doc = Some 0
   \<and> map latest_version
        (reg_documents (process_doc demo_digest show_int demo_clock (page_ok ''new'')
                         zero_doc (world_of zero_doc))) = [Some 2]
   \<and> map version
        (reg_document_versions (process_doc demo_digest show_int demo_clock (page_ok ''new'')
                         zero_doc (world_of zero_doc))) = [2]
   \<and> content_hash huge_doc = Some ''sha:old''
   \<and> latest_version huge_doc = Some 9007199254740992
   \<and> map latest_version
        (reg_documents (process_doc demo_digest show_int demo_clock (page_ok ''new'')
                         huge_doc (world_of huge_doc))) = [Some 9007199254740992]
   \<and> map version
        (reg_document_versions (process_doc demo_digest show_int demo_clock (page_ok ''new'')
                         huge_doc (world_of huge_doc))) = [9007199254740992]"
  by (simp add: demo_defs unversioned_doc_def zero_doc_def huge_doc_def world_of_def run_defs
      save_version_fields)

text \<open>
  C7, as the source has it. A document whose \<^verbatim>\<open>content_hash\<close> is null keeps the version
  number it has: line 46 takes \<^verbatim>\<open>doc.latest_version || 1\<close> and line 63 does not apply.
  With every call succeeding and both writes accepted, the row becomes active with that
  version (1 when \<^verbatim>\<open>latest_version\<close> is null or 0) and with the hash of the fetched
  text, and one version row with the same version and hash is appended.
\<close>

theorem C7_first_capture_keeps_stored_version:
  assumes "goto_err a = None" and "inner_text a = Inr b"
    and "content_hash d = None"
    and "pdf a = Inr buf" and "upload_err a = None" and "page_title a = Inr ttl"
    and "update_err a = None" and "insert_err a = None"
    and "nv = (case latest_version d of None \<Rightarrow> 1 | Some n \<Rightarrow> if n = 0 then 1 else n)"
  shows "(\<forall>r \<in> set (reg_documents (process_doc sha256 to_string clock a d w)).
            doc_id r = doc_id d \<longrightarrow>
              status r = ''active'' \<and> latest_version r = Some nv
              \<and> content_hash r = Some (sha256 (body_text b)))
       \<and> (\<exists>row. reg_document_versions (process_doc sha256 to_string clock a d w) =
                   reg_document_versions w @ [row]
              \<and> reg_document_id row = doc_id d \<and> version row = nv
              \<and> v_content_hash row = sha256 (body_text b))"
proof -
  from assms(3) have ch: "changed d (sha256 (body_text b))"
    by (simp add: changed_def truthy_def)
  from assms(3,9) have nv: "next_version d = nv"
    by (simp add: next_version_def truthy_def or_one_def)
  have run: "process_doc sha256 to_string clock a d w =
      save_version clock a d (body_text b) (sha256 (body_text b)) (next_version d)
        (snapshot_key to_string d (next_version d)) ttl
        (storage_upload (snapshot_key to_string d (next_version d)) buf None
          (log (LogProcessing (canonical_url d)) w))"
    using assms(1,2) ch assms(4,5,6) by (rule process_doc_saved)
  have "\<forall>r \<in> set (reg_documents (process_doc sha256 to_string clock a d w)).
            doc_id r = doc_id d \<longrightarrow>
              status r = ''active'' \<and> latest_version r = Some nv
              \<and> content_hash r = Some (sha256 (body_text b))"
    using assms(7) by (auto simp add: run save_version_fields nv)
  moreover have "\<exists>row. reg_document_versions (process_doc sha256 to_string clock a d w) =
                   reg_document_versions w @ [row]
              \<and> reg_document_id row = doc_id d \<and> version row = nv
              \<and> v_content_hash row = sha256 (body_text b)"
    using assms(8) by (simp add: run save_version_fields nv)
  ultimately show ?thesis by simp
qed

theorem C7_witness:
  "content_hash fresh_doc = None \<and> latest_version fresh_doc = None
   \<and> map status
        (reg_documents (process_doc demo_digest show_int demo_clock (page_ok ''new'') fresh_doc demo_world))
      = [''active'', ''pending'', ''pending'']
   \<and> map latest_version
        (reg_documents (process_doc demo_digest show_int demo_clock (page_ok ''new'') fresh_doc demo_world))
      = [Some 1, Some 3, Some 5]
   \<and> map content_hash
        (reg_documents (process_doc demo_digest show_int demo_clock (page_ok ''new'') fresh_doc demo_world))
      = [Some ''sha:new'', Some ''sha:old'', None]
   \<and> map version
        (reg_document_versions
          (process_doc demo_digest show_int demo_clock (page_ok ''new'') fresh_doc demo_world))
      = [1]
   \<and> map v_content_hash
        (reg_document_versions
          (process_doc demo_digest show_int demo_clock (page_ok ''new'') fresh_doc demo_world))
      = [''sha:new'']"
  using C7_first_capture_keeps_stored_version [of "page_ok ''new''" "Some ''new''" fresh_doc
      "''%PDF''" "''Title''" 1 demo_digest show_int demo_clock demo_world]
  by (simp add: demo_defs process_doc_def try_body_def changed_def truthy_def next_version_def
      or_one_def body_text_def save_version_fields Let_def)

text \<open>
  C7 as it is worded (the version is 1 for every document with a null hash) fails for a
  document whose hash was cleared while \<^verbatim>\<open>latest_version\<close> stayed at 5: the row keeps
  version 5 and the version row that is appended carries 5.
\<close>

theorem C7_counterexample:
  "content_hash reset_doc = None
   \<and> map latest_version
        (reg_documents (process_doc demo_digest show_int demo_clock (page_ok ''new'') reset_doc demo_world))
      = [None, Some 3, Some 5]
   \<and> map version
        (reg_document_versions
          (process_doc demo_digest show_int demo_clock (page_ok ''new'') reset_doc demo_world))
      = [5]"
  by (simp add: demo_defs process_doc_def try_body_def changed_def truthy_def next_version_def
      or_one_def body_text_def save_version_fields Let_def)

section \<open>The unchanged path\<close>

text \<open>
  C3. When the stored hash equals the hash of the fetched text, the only store request of
  the iteration is an update whose payload holds \<^verbatim>\<open>status\<close> (active) and
  \<^verbatim>\<open>last_checked_at\<close>: in the rows of the document these two columns change and
  \<^verbatim>\<open>latest_version\<close>, \<^verbatim>\<open>content_hash\<close>, \<^verbatim>\<open>full_text\<close>, \<^verbatim>\<open>title\<close>,
  \<^verbatim>\<open>snapshot_path\<close>, \<^verbatim>\<open>retrieved_at\<close> and \<^verbatim>\<open>updated_at\<close> stay; no version
  row is inserted and nothing is uploaded.
\<close>

theorem C3_unchanged_touches_status_and_last_checked:
  assumes "goto_err a = None" and "inner_text a = Inr b"
    and "content_hash d = Some h" and "h \<noteq> []" and "sha256 (body_text b) = h"
  shows "reg_documents (process_doc sha256 to_string clock a d w) =
           (if touch_err a = None
            then map (\<lambda>r. if doc_id r = doc_id d
                           then r\<lparr>status := ''active'',
                                  last_checked_at := Some (clock (ticks w))\<rparr>
                           else r) (reg_documents w)
            else reg_documents w)
       \<and> map latest_version (reg_documents (process_doc sha256 to_string clock a d w)) =
           map latest_version (reg_documents w)
       \<and> map content_hash (reg_documents (process_doc sha256 to_string clock a d w)) =
           map content_hash (reg_documents w)
       \<and> map full_text (reg_documents (process_doc sha256 to_string clock a d w)) =
           map full_text (reg_documents w)
       \<and> map title (reg_documents (process_doc sha256 to_string clock a d w)) =
           map title (reg_documents w)
       \<and> map snapshot_path (reg_documents (process_doc sha256 to_string clock a d w)) =
           map snapshot_path (reg_documents w)
       \<and> map retrieved_at (reg_documents (process_doc sha256 to_string clock a d w)) =
           map retrieved_at (reg_documents w)
       \<and> map updated_at (reg_documents (process_doc sha256 to_string clock a d w)) =
           map updated_at (reg_documents w)
       \<and> reg_document_versions (process_doc sha256 to_string clock a d w) = reg_document_versions w
       \<and> regulations (process_doc sha256 to_string clock a d w) = regulations w
       \<and> trace (process_doc sha256 to_string clock a d w) =
           trace w @ [LogProcessing (canonical_url d),
                      ReqUpdate (doc_id d)
                        (empty_patch\<lparr>p_status := Some ''active'',
                                      p_last_checked_at := Some (clock (ticks w))\<rparr>)
                        (touch_err a),
                      LogNoChange]"
proof -
  have run: "process_doc sha256 to_string clock a d w =
               mark_checked clock a d (log (LogProcessing (canonical_url d)) w)"
    using assms by (rule process_doc_unchanged)
  have rows: "reg_documents (process_doc sha256 to_string clock a d w) =
           (if touch_err a = None
            then map (\<lambda>r. if doc_id r = doc_id d
                           then r\<lparr>status := ''active'',
                                  last_checked_at := Some (clock (ticks w))\<rparr>
                           else r) (reg_documents w)
            else reg_documents w)"
    by (simp add: run mark_checked_fields)
  have f1: "map latest_version (reg_documents (process_doc sha256 to_string clock a d w)) =
           map latest_version (reg_documents w)"
    by (simp add: rows)
  have f2: "map content_hash (reg_documents (process_doc sha256 to_string clock a d w)) =
           map content_hash (reg_documents w)"
    by (simp add: rows)
  have f3: "map full_text (reg_documents (process_doc sha256 to_string clock a d w)) =
           map full_text (reg_documents w)"
    by (simp add: rows)
  have f4: "map title (reg_documents (process_doc sha256 to_string clock a d w)) =
           map title (reg_documents w)"
    by (simp add: rows)
  have f5: "map snapshot_path (reg_documents (process_doc sha256 to_string clock a d w)) =
           map snapshot_path (reg_documents w)"
    by (simp add: rows)
  have f6: "map retrieved_at (reg_documents (process_doc sha256 to_string clock a d w)) =
           map retrieved_at (reg_documents w)"
    by (simp add: rows)
  have f7: "map updated_at (reg_documents (process_doc sha256 to_string clock a d w)) =
           map updated_at (reg_documents w)"
    by (simp add: rows)
  have v: "reg_document_versions (process_doc sha256 to_string clock a d w) = reg_document_versions w"
    by (simp add: run mark_checked_fields)
  have s: "regulations (process_doc sha256 to_string clock a d w) = regulations w"
    by (simp add: run mark_checked_fields)
  have t: "trace (process_doc sha256 to_string clock a d w) =
           trace w @ [LogProcessing (canonical_url d),
                      ReqUpdate (doc_id d)
                        (empty_patch\<lparr>p_status := Some ''active'',
                                      p_last_checked_at := Some (clock (ticks w))\<rparr>)
                        (touch_err a),
                      LogNoChange]"
    by (simp add: run mark_checked_fields)
  from rows f1 f2 f3 f4 f5 f6 f7 v s t show ?thesis by blast
qed

theorem C3_witness:
  "content_hash seen_doc = Some ''sha:old'' \<and> demo_digest ''old'' = ''sha:old''
   \<and> reg_documents (process_doc demo_digest show_int demo_clock (page_ok ''old'') seen_doc demo_world) =
       [fresh_doc,
        seen_doc\<lparr>status := ''active'', last_checked_at := Some ''2024-05-01T00:00:00.000Z''\<rparr>,
        reset_doc]
   \<and> reg_document_versions
        (process_doc demo_digest show_int demo_clock (page_ok ''old'') seen_doc demo_world) = []
   \<and> regulations (process_doc demo_digest show_int demo_clock (page_ok ''old'') seen_doc demo_world) = []"
  using C3_unchanged_touches_status_and_last_checked [of "page_ok ''old''" "Some ''old''" seen_doc
      "''sha:old''" demo_digest show_int demo_clock demo_world]
  by (simp add: demo_defs body_text_def)

section \<open>Failures\<close>

text \<open>
  C6. When the upload of the snapshot fails, the iteration goes from the upload straight to
  the handler: the trace holds the failed upload, the console line of the failure and the
  update that marks the document as error, and nothing else. No column of the capture
  (\<^verbatim>\<open>title\<close>, \<^verbatim>\<open>latest_version\<close>, \<^verbatim>\<open>snapshot_path\<close>, \<^verbatim>\<open>full_text\<close>,
  \<^verbatim>\<open>content_hash\<close>, \<^verbatim>\<open>retrieved_at\<close>) changes and no version row is inserted; the
  rows of the document get status error (when the store accepts that update).
\<close>

theorem C6_upload_failure_writes_no_capture:
  assumes "goto_err a = None" and "inner_text a = Inr b"
    and "changed d (sha256 (body_text b))"
    and "pdf a = Inr buf" and "upload_err a = Some e"
  shows "reg_documents (process_doc sha256 to_string clock a d w) =
           (if mark_error_err a = None
            then map (\<lambda>r. if doc_id r = doc_id d
                           then r\<lparr>status := ''error'',
                                  last_checked_at := Some (clock (ticks w)),
                                  updated_at := Some (clock (Suc (ticks w)))\<rparr>
                           else r) (reg_documents w)
            else reg_documents w)
       \<and> map title (reg_documents (process_doc sha256 to_string clock a d w)) =
           map title (reg_documents w)
       \<and> map latest_version (reg_documents (process_doc sha256 to_string clock a d w)) =
           map latest_version (reg_documents w)
       \<and> map snapshot_path (reg_documents (process_doc sha256 to_string clock a d w)) =
           map snapshot_path (reg_documents w)
       \<and> map full_text (reg_documents (process_doc sha256 to_string clock a d w)) =
           map full_text (reg_documents w)
       \<and> map content_hash (reg_documents (process_doc sha256 to_string clock a d w)) =
           map content_hash (reg_documents w)
       \<and> map retrieved_at (reg_documents (process_doc sha256 to_string clock a d w)) =
           map retrieved_at (reg_documents w)
       \<and> reg_document_versions (process_doc sha256 to_string clock a d w) = reg_document_versions w
       \<and> trace (process_doc sha256 to_string clock a d w) =
           trace w @ [LogProcessing (canonical_url d),
                      ReqUpload (snapshot_key to_string d (next_version d)) buf (Some e),
                      LogFailed (canonical_url d) e,
                      ReqUpdate (doc_id d)
                        (empty_patch\<lparr>p_status := Some ''error'',
                                      p_last_checked_at := Some (clock (ticks w)),
                                      p_updated_at := Some (clock (Suc (ticks w)))\<rparr>)
                        (mark_error_err a)]"
proof -
  have run: "process_doc sha256 to_string clock a d w =
           on_failure clock a d e
             (storage_upload (snapshot_key to_string d (next_version d)) buf (Some e)
               (log (LogProcessing (canonical_url d)) w))"
    using assms by (rule process_doc_upload_failed)
  have rows: "reg_documents (process_doc sha256 to_string clock a d w) =
           (if mark_error_err a = None
            then map (\<lambda>r. if doc_id r = doc_id d
                           then r\<lparr>status := ''error'',
                                  last_checked_at := Some (clock (ticks w)),
                                  updated_at := Some (clock (Suc (ticks w)))\<rparr>
                           else r) (reg_documents w)
            else reg_documents w)"
    by (simp add: run on_failure_fields)
  have f1: "map title (reg_documents (process_doc sha256 to_string clock a d w)) =
           map title (reg_documents w)"
    by (simp add: rows)
  have f2: "map latest_version (reg_documents (process_doc sha256 to_string clock a d w)) =
           map latest_version (reg_documents w)"
    by (simp add: rows)
  have f3: "map snapshot_path (reg_documents (process_doc sha256 to_string clock a d w)) =
           map snapshot_path (reg_documents w)"
    by (simp add: rows)
  have f4: "map full_text (reg_documents (process_doc sha256 to_string clock a d w)) =
           map full_text (reg_documents w)"
    by (simp add: rows)
  have f5: "map content_hash (reg_documents (process_doc sha256 to_string clock a d w)) =
           map content_hash (reg_documents w)"
    by (simp add: rows)
  have f6: "map retrieved_at (reg_documents (process_doc sha256 to_string clock a d w)) =
           map retrieved_at (reg_documents w)"
    by (simp add: rows)
  have v: "reg_document_versions (process_doc sha256 to_string clock a d w) = reg_document_versions w"
    by (simp add: run on_failure_fields)
  have t: "trace (process_doc sha256 to_string clock a d w) =
           trace w @ [LogProcessing (canonical_url d),
                      ReqUpload (snapshot_key to_string d (next_version d)) buf (Some e),
                      LogFailed (canonical_url d) e,
                      ReqUpdate (doc_id d)
                        (empty_patch\<lparr>p_status := Some ''error'',
                                      p_last_checked_at := Some (clock (ticks w)),
                                      p_updated_at := Some (clock (Suc (ticks w)))\<rparr>)
                        (mark_error_err a)]"
    by (simp add: run on_failure_fields)
  from rows f1 f2 f3 f4 f5 f6 v t show ?thesis by blast
qed

theorem C6_witness:
  "changed seen_doc (demo_digest ''new'')
   \<and> upload_err ((page_ok ''new'')\<lparr>upload_err := Some ''bucket unavailable''\<rparr>)
       = Some ''bucket unavailable''
   \<and> reg_documents
        (process_doc demo_digest show_int demo_clock
          ((page_ok ''new'')\<lparr>upload_err := Some ''bucket unavailable''\<rparr>) seen_doc demo_world) =
       [fresh_doc,
        seen_doc\<lparr>status := ''error'', last_checked_at := Some ''2024-05-01T00:00:00.000Z'',
                 updated_at := Some ''2024-05-01T00:00:00.000Z''\<rparr>,
        reset_doc]
   \<and> reg_document_versions
        (process_doc demo_digest show_int demo_clock
          ((page_ok ''new'')\<lparr>upload_err := Some ''bucket unavailable''\<rparr>) seen_doc demo_world) = []"
  using C6_upload_failure_writes_no_capture
      [of "(page_ok ''new'')\<lparr>upload_err := Some ''bucket unavailable''\<rparr>" "Some ''new''" seen_doc
        demo_digest "''%PDF''" "''bucket unavailable''" show_int demo_clock demo_world]
  by (simp add: demo_defs body_text_def changed_def truthy_def)

text \<open>
  C10. The handler drops the result of its own update. When the body of the \<^verbatim>\<open>try\<close>
  threw and the store rejects the update that would mark the document as error, no row
  changes (a pending row stays pending), the rejected request is the last thing the
  iteration did, and the loop goes on with the next document.
\<close>

theorem C10_rejected_error_mark_is_dropped:
  assumes "fst (try_body sha256 to_string clock (env i) d (log (LogProcessing (canonical_url d)) w))
             = Some msg"
    and "mark_error_err (env i) = Some rej"
  shows "reg_documents (process_doc sha256 to_string clock (env i) d w) = reg_documents w
       \<and> last (trace (process_doc sha256 to_string clock (env i) d w)) =
           ReqUpdate (doc_id d)
             (empty_patch\<lparr>p_status := Some ''error'',
                           p_last_checked_at := Some (clock (ticks w)),
                           p_updated_at := Some (clock (Suc (ticks w)))\<rparr>)
             (Some rej)
       \<and> for_docs sha256 to_string clock env i (d # ds) w =
           for_docs sha256 to_string clock env (Suc i) ds (process_doc sha256 to_string clock (env i) d w)
       \<and> attempted (trace (for_docs sha256 to_string clock env i (d # ds) w)) =
           attempted (trace w) @ canonical_url d # map canonical_url ds"
proof -
  obtain w1 where tb:
    "try_body sha256 to_string clock (env i) d (log (LogProcessing (canonical_url d)) w) = (Some msg, w1)"
    using assms(1) by (cases "try_body sha256 to_string clock (env i) d (log (LogProcessing (canonical_url d)) w)") simp
  have w1: "reg_documents w1 = reg_documents w" "ticks w1 = ticks w"
    using try_body_thrown(1,3) [OF assms(1)] by (simp_all add: tb)
  have run: "process_doc sha256 to_string clock (env i) d w = on_failure clock (env i) d msg w1"
    by (simp add: process_doc_def tb)
  have rows: "reg_documents (process_doc sha256 to_string clock (env i) d w) = reg_documents w"
    using assms(2) by (simp add: run on_failure_fields w1)
  have lst: "last (trace (process_doc sha256 to_string clock (env i) d w)) =
           ReqUpdate (doc_id d)
             (empty_patch\<lparr>p_status := Some ''error'',
                           p_last_checked_at := Some (clock (ticks w)),
                           p_updated_at := Some (clock (Suc (ticks w)))\<rparr>)
             (Some rej)"
    using assms(2) by (simp add: run on_failure_fields w1)
  have nxt: "for_docs sha256 to_string clock env i (d # ds) w =
           for_docs sha256 to_string clock env (Suc i) ds (process_doc sha256 to_string clock (env i) d w)"
    by simp
  have att: "attempted (trace (for_docs sha256 to_string clock env i (d # ds) w)) =
           attempted (trace w) @ canonical_url d # map canonical_url ds"
    by (simp add: attempted_for_docs attempted_process_doc)
  from rows lst nxt att show ?thesis by blast
qed

theorem C10_witness:
  "fst (try_body demo_digest show_int demo_clock timed_out fresh_doc
          (log (LogProcessing (canonical_url fresh_doc)) demo_world))
     = Some ''Timeout 60000ms exceeded''
   \<and> mark_error_err timed_out = Some ''store unavailable''
   \<and> reg_documents (process_doc demo_digest show_int demo_clock timed_out fresh_doc demo_world)
       = [fresh_doc, seen_doc, reset_doc]
   \<and> status fresh_doc = ''pending''
   \<and> attempted (trace (for_docs demo_digest show_int demo_clock (\<lambda>i. timed_out) 0
                         [fresh_doc, seen_doc] demo_world))
       = [''https://example.org/a'', ''https://example.org/b'']"
  using C10_rejected_error_mark_is_dropped
      [of demo_digest show_int demo_clock "\<lambda>i. timed_out" 0 fresh_doc
      demo_world "''Timeout 60000ms exceeded''" "''store unavailable''" "[seen_doc]"]
  by (simp add: demo_defs timed_out_def try_body_def)

text \<open>
  C4, at an input where the claim fails. The source awaits the update of the row and drops
  its result (lines 78-88), where the upload just above it reads \<^verbatim>\<open>error\<close> and
  throws (lines 70-73). Here the store rejects the update of document d2: its row is
  untouched, and the version row with version 4 is inserted all the same.
\<close>

theorem C4_version_row_written_after_rejected_update:
  "update_err update_rejected = Some ''rejected''
   \<and> reg_documents (process_doc demo_digest show_int demo_clock update_rejected seen_doc demo_world)
       = [fresh_doc, seen_doc, reset_doc]
   \<and> map reg_document_id
        (reg_document_versions
          (process_doc demo_digest show_int demo_clock update_rejected seen_doc demo_world)) = [''d2'']
   \<and> map version
        (reg_document_versions
          (process_doc demo_digest show_int demo_clock update_rejected seen_doc demo_world)) = [4]"
  by (simp add: demo_defs update_rejected_def process_doc_def try_body_def changed_def truthy_def
      next_version_def or_one_def js_plus_one_def body_text_def save_version_fields Let_def)

text \<open>
  C5, at two inputs where the claim fails. A rejected update or insert is reported in the
  result object, which the source drops, so nothing reaches the handler. With the update
  rejected the row stays pending; with the insert rejected the row is active and has no
  version row; in both runs the last console line is the one that reports the save, and
  the document is never marked as error.
\<close>

theorem C5_rejected_writes_reach_no_handler:
  "map status
     (reg_documents (process_doc demo_digest show_int demo_clock update_rejected seen_doc demo_world))
     = [''pending'', ''pending'', ''pending'']
   \<and> last (trace (process_doc demo_digest show_int demo_clock update_rejected seen_doc demo_world))
     = LogSaved 4
   \<and> map status
     (reg_documents (process_doc demo_digest show_int demo_clock insert_rejected seen_doc demo_world))
     = [''pending'', ''active'', ''pending'']
   \<and> reg_document_versions
       (process_doc demo_digest show_int demo_clock insert_rejected seen_doc demo_world) = []
   \<and> last (trace (process_doc demo_digest show_int demo_clock insert_rejected seen_doc demo_world))
     = LogSaved 4"
  by (simp add: demo_defs update_rejected_def insert_rejected_def process_doc_def try_body_def
      changed_def truthy_def next_version_def or_one_def js_plus_one_def body_text_def save_version_fields
      save_version_trace Let_def)

section \<open>The batch\<close>

text \<open>
  C8. Whatever the browser and the store answer, for each document of the batch, the loop
  starts the processing of every document of the batch, in order: a failure in one
  iteration ends in that iteration's handler. (The handler's own store call reports a
  failure in its result and does not throw; see the head of this theory.)
\<close>

theorem C8_every_document_is_attempted:
  "attempted (trace (for_docs sha256 to_string clock env i ds w)) =
     attempted (trace w) @ map canonical_url ds"
  by (rule attempted_for_docs)

theorem C8_witness:
  "attempted (trace (for_docs demo_digest show_int demo_clock first_fails 0
                      [fresh_doc, seen_doc, reset_doc] demo_world))
     = [''https://example.org/a'', ''https://example.org/b'', ''https://example.org/c'']
   \<and> goto_err (first_fails 0) = Some ''Timeout 60000ms exceeded''"
  using C8_every_document_is_attempted [of demo_digest show_int demo_clock first_fails 0
      "[fresh_doc, seen_doc, reset_doc]" demo_world]
  by (simp add: demo_defs first_fails_def nav_failed_def)

text \<open>
  C9. The select returns at most 20 rows, and a run starts the processing of at most 20
  documents, however many rows are pending.
\<close>

theorem C9_batch_is_capped:
  "length (select_pending w) \<le> 20
   \<and> length (attempted (trace (snd (main sha256 to_string clock env w))))
       \<le> length (attempted (trace w)) + 20"
proof -
  have "length (attempted (trace (snd (main sha256 to_string clock env w))))
       \<le> length (attempted (trace w)) + 20"
    using length_select_pending [of w]
    by (simp add: main_def Let_def attempted_for_docs split: option.splits)
  then show ?thesis using length_select_pending [of w] by simp
qed

theorem C9_witness:
  "length (filter (\<lambda>r. status r = ''pending'') (reg_documents crowded_world)) = 25
   \<and> length (select_pending crowded_world) \<le> 20
   \<and> length (attempted (trace (snd (main demo_digest show_int demo_clock calm_env crowded_world))))
       \<le> 20"
  using C9_batch_is_capped [of crowded_world demo_digest show_int demo_clock calm_env]
  by (simp add: crowded_world_def fresh_doc_def)

text \<open>
  Scenarios, run: of 25 pending documents exactly 20 are attempted; a changed document at
  version 3 is stored under the key of version 4; and in a batch whose first document
  times out, that document is marked as error, gets no version row, and the two documents
  after it are captured.
\<close>

lemma crowded_run:
  "length (filter (\<lambda>r. status r = ''pending'') (reg_documents crowded_world)) = 25
   \<and> attempted (trace (snd (main demo_digest show_int demo_clock calm_env crowded_world))) =
       replicate 20 ''https://example.org/a''"
  by (simp add: main_def Let_def attempted_for_docs select_pending_def crowded_world_def
      calm_env_def fresh_doc_def)

lemma saved_path_example:
  "map snapshot_path
     (reg_documents (process_doc demo_digest show_int demo_clock (page_ok ''new'') seen_doc demo_world))
     = [None, Some ''d2/v4/snapshot.pdf'', None]
   \<and> regulations (process_doc demo_digest show_int demo_clock (page_ok ''new'') seen_doc demo_world)
     = [(''d2/v4/snapshot.pdf'', ''%PDF'')]
   \<and> snapshot_key show_int seen_doc 12 = ''d2/v12/snapshot.pdf''"
  by (simp add: demo_defs run_defs save_version_fields snapshot_key_def show_int_def
      show_nat.simps digit_def)

lemma first_fails_run:
  "map status
     (reg_documents (for_docs demo_digest show_int demo_clock first_fails 0
                      [fresh_doc, seen_doc, reset_doc] demo_world))
     = [''error'', ''active'', ''active'']
   \<and> map reg_document_id
     (reg_document_versions (for_docs demo_digest show_int demo_clock first_fails 0
                      [fresh_doc, seen_doc, reset_doc] demo_world))
     = [''d2'', ''d3'']
   \<and> map version
     (reg_document_versions (for_docs demo_digest show_int demo_clock first_fails 0
                      [fresh_doc, seen_doc, reset_doc] demo_world))
     = [4, 5]"
  by (simp add: demo_defs first_fails_def nav_failed_def run_defs save_version_fields
      on_failure_fields)

end
